theory Spec2Isabelle
  imports Main
begin

section \<open>The request loop of \<open>server.ts\<close>\<close>

text \<open>
  The program is one top-level loop over the requests the HTTP server yields:
  \<^verbatim>\<open>
  for await (const req of server) {
    if (req.method === "GET" && req.url === "/") {
      const path = `${Deno.cwd()}/static/index.html`
      const content = await serveFile(req, path);
      req.respond(content)
    }
    else if (req.method === "GET" && req.url === "/ws") { }
    else if (req.method === "GET" && req.url === "/favicon.ico") { }
    else {
      const path = `${Deno.cwd()}/static/${req.url}`;
      const content = await serveFile(req, path);
      req.respond(content)
    }
  }
  \<close>
  The bodies of the second and third branch hold comments only.
\<close>

subsection \<open>Data\<close>

text \<open>
  Of a request the loop reads the two string fields \<open>method\<close> and \<open>url\<close>, and nothing
  else.
\<close>

record request =
  "method" :: string
  url :: string

text \<open>
  A response is what \<open>serveFile\<close> resolves to and what \<open>req.respond\<close> is given. The loop
  builds no response of its own and inspects none.
\<close>

record response =
  status :: nat
  body :: string

text \<open>
  \<open>serveFile\<close> is imported from the standard library and is not part of the program, so it
  is a parameter of the model: a function of the request and the path whose awaited promise
  either rejects with an error (\<open>Inl\<close>) or resolves to a response (\<open>Inr\<close>). The type of
  errors is left open; the loop never creates or inspects one. The program writes no file,
  and the files are taken not to change while it runs, so one function stands for every
  call.
\<close>

type_synonym 'e serveFile = "request \<Rightarrow> string \<Rightarrow> 'e + response"

text \<open>
  What one pass through the loop body does, as seen from outside: the paths given to
  \<open>serveFile\<close>, the responses given to \<open>req.respond\<close>, and the error that leaves the body,
  if one does. \<open>req.respond\<close> is taken to accept the response it is given.
\<close>

record 'e effects =
  reads :: "string list"
  sent :: "response list"
  thrown :: "'e option"

subsection \<open>The loop body\<close>

text \<open>
  An empty branch body: nothing is read, nothing is sent, nothing is thrown.
\<close>

definition nothing :: "'e effects" where
  "nothing = \<lparr>reads = [], sent = [], thrown = None\<rparr>"

text \<open>
  The two statements \<open>const content = await serveFile(req, path); req.respond(content)\<close>
  that end the first and the last branch. There is no \<open>try\<close> around the \<open>await\<close>: a
  rejection leaves the loop body before \<open>req.respond\<close> is reached.
\<close>

definition serve_and_respond :: "'e serveFile \<Rightarrow> request \<Rightarrow> string \<Rightarrow> 'e effects" where
  "serve_and_respond serveFile req path =
     (case serveFile req path of
        Inl e \<Rightarrow> \<lparr>reads = [path], sent = [], thrown = Some e\<rparr>
      | Inr content \<Rightarrow> \<lparr>reads = [path], sent = [content], thrown = None\<rparr>)"

text \<open>
  The body of the loop for one request; \<open>cwd\<close> is the value of \<open>Deno.cwd()\<close>. The template
  literals are string concatenations.
\<close>

definition handle :: "'e serveFile \<Rightarrow> string \<Rightarrow> request \<Rightarrow> 'e effects" where
  "handle serveFile cwd req =
     (if method req = ''GET'' \<and> url req = ''/'' then
        serve_and_respond serveFile req (cwd @ ''/static/index.html'')
      else if method req = ''GET'' \<and> url req = ''/ws'' then
        nothing
      else if method req = ''GET'' \<and> url req = ''/favicon.ico'' then
        nothing
      else
        serve_and_respond serveFile req (cwd @ ''/static/'' @ url req))"

subsection \<open>The loop\<close>

text \<open>
  The loop takes the requests one after the other; the list is the finite sequence of
  requests that have arrived. The result is the log of the requests whose body was entered,
  each with its effects. An error that leaves the body is caught nowhere, so it ends the
  loop (and with it the program): the requests behind it are never taken.
\<close>

fun server_loop :: "'e serveFile \<Rightarrow> string \<Rightarrow> request list \<Rightarrow> (request \<times> 'e effects) list" where
  "server_loop serveFile cwd [] = []"
| "server_loop serveFile cwd (req # rest) =
     (let fx = handle serveFile cwd req in
      case thrown fx of
        None \<Rightarrow> (req, fx) # server_loop serveFile cwd rest
      | Some e \<Rightarrow> [(req, fx)])"

subsection \<open>A table-driven \<open>serveFile\<close> for concrete runs\<close>

text \<open>
  The theorems below hold for every \<open>serveFile\<close>, or for every one that meets a stated
  condition. To run the loop on concrete requests,
  \<open>serveFile_table\<close> is a \<open>serveFile\<close> given by a finite table from path strings, spelled as
  they are passed in, to file contents: like the imported function of \<open>std@0.95.0\<close> it
  resolves to a response with status 200 and the file as body where the path can be opened,
  and rejects with the error of the failed open where it cannot.
\<close>

datatype deno_error = NotFound

definition serveFile_table :: "(string \<times> string) list \<Rightarrow> deno_error serveFile" where
  "serveFile_table files req filePath =
     (case map_of files filePath of
        None \<Rightarrow> Inl NotFound
      | Some bytes \<Rightarrow> Inr \<lparr>status = 200, body = bytes\<rparr>)"

subsection \<open>Notions used to state the properties\<close>

text \<open>
  A request is taken by one of the three earlier branches exactly when its method is
  \<open>GET\<close> and its URL is one of the three literals; every other request reaches the last
  branch.
\<close>

definition special :: "request \<Rightarrow> bool" where
  "special req = (method req = ''GET'' \<and> url req \<in> {''/'', ''/ws'', ''/favicon.ico''})"

text \<open>
  The segments of a URL are the pieces between its slashes; a URL holds a parent-directory
  traversal when one of its segments is \<open>..\<close>. The program has no such notion: the two
  definitions only serve to say which requests a property is about.
\<close>

fun segments :: "string \<Rightarrow> string list" where
  "segments [] = [[]]"
| "segments (c # cs) =
     (if c = CHR ''/'' then [] # segments cs
      else (case segments cs of [] \<Rightarrow> [[c]] | s # ss \<Rightarrow> (c # s) # ss))"

definition traversal :: "string \<Rightarrow> bool" where
  "traversal u = (''..'' \<in> set (segments u))"

text \<open>
  Modelled from the spec: what the file-serving action \<open>serveFile\<close>, imported from the
  standard library and absent from the repository, does for a file that exists. The spec
  has it serve "that file's contents" and answer an existing file with "200 with the exact
  byte content of the file". \<open>files\<close> gives for a path, spelled as it is passed in, the
  bytes of the file found there, and \<open>None\<close> where there is no file. \<open>serves_files\<close> holds of
  a \<open>serveFile\<close> that answers every existing file so; it says nothing about the paths
  without a file.
\<close>

definition serves_files :: "(string \<rightharpoonup> string) \<Rightarrow> 'e serveFile \<Rightarrow> bool" where
  "serves_files files serveFile =
     (\<forall>req filePath bytes. files filePath = Some bytes \<longrightarrow>
        serveFile req filePath = Inr \<lparr>status = 200, body = bytes\<rparr>)"

text \<open>
  A \<open>serveFile\<close> that opens nothing and answers with the path it was called with as body:
  a run with it shows the argument of the call.
\<close>

definition serveFile_echo :: "deno_error serveFile" where
  "serveFile_echo req filePath = Inr \<lparr>status = 200, body = filePath\<rparr>"

text \<open>
  The dispatcher described as a table of route rules, each a predicate on the request and
  an action, read in order until the first predicate holds; \<open>first_match\<close> is the reading
  of such a table. The actions are written out in terms of \<open>serveFile\<close>: the first and the
  last rule call it on their path and send what it resolves to, or throw what it rejects
  with; the second and the third do nothing.
\<close>

definition route_rules ::
  "'e serveFile \<Rightarrow> string \<Rightarrow> ((request \<Rightarrow> bool) \<times> (request \<Rightarrow> 'e effects)) list" where
  "route_rules serveFile cwd =
     [(\<lambda>req. method req = ''GET'' \<and> url req = ''/'',
         \<lambda>req. case serveFile req (cwd @ ''/static/index.html'') of
                Inl e \<Rightarrow> \<lparr>reads = [cwd @ ''/static/index.html''], sent = [], thrown = Some e\<rparr>
              | Inr content \<Rightarrow>
                  \<lparr>reads = [cwd @ ''/static/index.html''], sent = [content], thrown = None\<rparr>),
      (\<lambda>req. method req = ''GET'' \<and> url req = ''/ws'',
         \<lambda>req. \<lparr>reads = [], sent = [], thrown = None\<rparr>),
      (\<lambda>req. method req = ''GET'' \<and> url req = ''/favicon.ico'',
         \<lambda>req. \<lparr>reads = [], sent = [], thrown = None\<rparr>),
      (\<lambda>req. True,
         \<lambda>req. case serveFile req (cwd @ ''/static/'' @ url req) of
                Inl e \<Rightarrow> \<lparr>reads = [cwd @ ''/static/'' @ url req], sent = [], thrown = Some e\<rparr>
              | Inr content \<Rightarrow>
                  \<lparr>reads = [cwd @ ''/static/'' @ url req], sent = [content], thrown = None\<rparr>)]"

fun first_match :: "(('a \<Rightarrow> bool) \<times> ('a \<Rightarrow> 'b)) list \<Rightarrow> 'a \<Rightarrow> 'b option" where
  "first_match [] x = None"
| "first_match ((p, act) # rules) x = (if p x then Some (act x) else first_match rules x)"

text \<open>
  The path a request has \<open>serveFile\<close> called on, if it has it called at all, and whether
  that call rejects.
\<close>

definition target :: "string \<Rightarrow> request \<Rightarrow> string option" where
  "target cwd req =
     (if method req = ''GET'' \<and> url req = ''/'' then Some (cwd @ ''/static/index.html'')
      else if method req = ''GET'' \<and> url req \<in> {''/ws'', ''/favicon.ico''} then None
      else Some (cwd @ ''/static/'' @ url req))"

definition rejects :: "'e serveFile \<Rightarrow> string \<Rightarrow> request \<Rightarrow> bool" where
  "rejects serveFile cwd req =
     (case target cwd req of
        None \<Rightarrow> False
      | Some path \<Rightarrow> (case serveFile req path of Inl e \<Rightarrow> True | Inr content \<Rightarrow> False))"

section \<open>Properties\<close>

subsection \<open>Auxiliary facts\<close>

lemma traversal_not_literal:
  "traversal u \<Longrightarrow> u \<noteq> ''/'' \<and> u \<noteq> ''/ws'' \<and> u \<noteq> ''/favicon.ico''"
  by (auto simp: traversal_def)

lemma serves_files_table: "serves_files (map_of files) (serveFile_table files)"
  by (simp add: serves_files_def serveFile_table_def)

lemma handle_target:
  "handle serveFile cwd req =
     (case target cwd req of
        None \<Rightarrow> \<lparr>reads = [], sent = [], thrown = None\<rparr>
      | Some path \<Rightarrow>
          (case serveFile req path of
             Inl e \<Rightarrow> \<lparr>reads = [path], sent = [], thrown = Some e\<rparr>
           | Inr content \<Rightarrow> \<lparr>reads = [path], sent = [content], thrown = None\<rparr>))"
  by (simp add: handle_def target_def serve_and_respond_def nothing_def split: sum.splits)

lemma thrown_rejects:
  "(thrown (handle serveFile cwd req) = None) = (\<not> rejects serveFile cwd req)"
  by (simp add: handle_target rejects_def split: option.splits sum.splits)

subsection \<open>Parent-directory traversal\<close>

text \<open>
  A \<open>GET\<close> for \<open>/../secret.txt\<close> is not refused: the path is handed to \<open>serveFile\<close> with
  its \<open>..\<close> segment, and the file found there is sent with status 200.
\<close>

theorem traversal_served:
  "traversal ''/../secret.txt'' \<and>
   handle (serveFile_table [(''/srv/static//../secret.txt'', ''top secret'')]) ''/srv''
       \<lparr>method = ''GET'', url = ''/../secret.txt''\<rparr>
     = \<lparr>reads = [''/srv/static//../secret.txt''],
        sent = [\<lparr>status = 200, body = ''top secret''\<rparr>], thrown = None\<rparr>"
  by (simp add: traversal_def handle_def serve_and_respond_def serveFile_table_def)

text \<open>
  C1, as the program has it: a request whose URL holds a \<open>..\<close> segment is checked by
  nothing. It reaches the last branch, the path given to \<open>serveFile\<close> is the working
  directory, \<open>/static/\<close> and the URL as received, and the outcome is that of \<open>serveFile\<close>:
  its response is sent, or its error leaves the loop body. The dispatcher raises no error
  of its own.
\<close>

theorem traversal_unchecked:
  "traversal (url req) \<Longrightarrow>
   handle serveFile cwd req =
     (case serveFile req (cwd @ ''/static/'' @ url req) of
        Inl e \<Rightarrow> \<lparr>reads = [cwd @ ''/static/'' @ url req], sent = [], thrown = Some e\<rparr>
      | Inr content \<Rightarrow>
          \<lparr>reads = [cwd @ ''/static/'' @ url req], sent = [content], thrown = None\<rparr>)"
  using traversal_not_literal [of "url req"]
  by (simp add: handle_def serve_and_respond_def split: sum.splits)

theorem traversal_unchecked_witness:
  "traversal (url \<lparr>method = ''GET'', url = ''/a/../../etc/passwd''\<rparr>) \<and>
   handle (serveFile_table []) ''/srv'' \<lparr>method = ''GET'', url = ''/a/../../etc/passwd''\<rparr>
     = \<lparr>reads = [''/srv/static//a/../../etc/passwd''], sent = [], thrown = Some NotFound\<rparr>"
proof -
  have t: "traversal (url \<lparr>method = ''GET'', url = ''/a/../../etc/passwd''\<rparr>)"
    by (simp add: traversal_def)
  show ?thesis
    using t traversal_unchecked [OF t, of "serveFile_table []" "''/srv''"]
    by (simp add: serveFile_table_def)
qed

subsection \<open>Absent files\<close>

text \<open>
  A \<open>GET\<close> for a file that is not there gets no 404: \<open>serveFile\<close> rejects, nothing is
  sent, and the error leaves the loop body.
\<close>

theorem missing_file_throws:
  "handle (serveFile_table [(''/srv/static/index.html'', ''<html>hi</html>'')]) ''/srv''
       \<lparr>method = ''GET'', url = ''/nope.js''\<rparr>
     = \<lparr>reads = [''/srv/static//nope.js''], sent = [], thrown = Some NotFound\<rparr>"
  by (simp add: handle_def serve_and_respond_def serveFile_table_def)

text \<open>
  C2, as the program has it: for a \<open>GET\<close> request of the last branch whose \<open>serveFile\<close>
  call rejects with an error \<open>e\<close>, as it does for an absent file, no response is sent,
  neither a 404 nor a 500; \<open>e\<close> leaves the loop body uncaught and ends the loop, whatever
  requests follow.
\<close>

theorem rejected_read_unanswered:
  "method req = ''GET'' \<Longrightarrow> url req \<notin> {''/'', ''/ws'', ''/favicon.ico''} \<Longrightarrow>
   serveFile req (cwd @ ''/static/'' @ url req) = Inl e \<Longrightarrow>
   handle serveFile cwd req
     = \<lparr>reads = [cwd @ ''/static/'' @ url req], sent = [], thrown = Some e\<rparr> \<and>
   server_loop serveFile cwd (req # rest) = [(req, handle serveFile cwd req)]"
  by (simp add: handle_def serve_and_respond_def)

theorem rejected_read_unanswered_witness:
  "handle (serveFile_table []) ''/srv'' \<lparr>method = ''GET'', url = ''/a.css''\<rparr>
     = \<lparr>reads = [''/srv/static//a.css''], sent = [], thrown = Some NotFound\<rparr> \<and>
   server_loop (serveFile_table []) ''/srv''
       [\<lparr>method = ''GET'', url = ''/a.css''\<rparr>, \<lparr>method = ''GET'', url = ''/favicon.ico''\<rparr>]
     = [(\<lparr>method = ''GET'', url = ''/a.css''\<rparr>,
         \<lparr>reads = [''/srv/static//a.css''], sent = [], thrown = Some NotFound\<rparr>)]"
  using rejected_read_unanswered [of "\<lparr>method = ''GET'', url = ''/a.css''\<rparr>"
      "serveFile_table []" "''/srv''" NotFound "[\<lparr>method = ''GET'', url = ''/favicon.ico''\<rparr>]"]
  by (simp add: serveFile_table_def)

subsection \<open>The favicon request\<close>

text \<open>
  A \<open>GET\<close> for \<open>/favicon.ico\<close> is given no response at all, so none with status 200 or 204.
\<close>

theorem favicon_unanswered:
  "sent (handle (serveFile_table [(''/srv/static/index.html'', ''<html>hi</html>'')]) ''/srv''
       \<lparr>method = ''GET'', url = ''/favicon.ico''\<rparr>) = []"
  by (simp add: handle_def nothing_def)

text \<open>
  C3, as the program has it: for a request with method \<open>GET\<close> and URL \<open>/favicon.ico\<close> the
  loop body does nothing: no path is given to \<open>serveFile\<close>, no error is raised, and no
  response is sent.
\<close>

theorem favicon_noop:
  "method req = ''GET'' \<Longrightarrow> url req = ''/favicon.ico'' \<Longrightarrow>
   handle serveFile cwd req = \<lparr>reads = [], sent = [], thrown = None\<rparr>"
  by (simp add: handle_def nothing_def)

theorem favicon_noop_witness:
  "handle (serveFile_table [(''/srv/static//favicon.ico'', ''icon'')]) ''/srv''
       \<lparr>method = ''GET'', url = ''/favicon.ico''\<rparr>
     = \<lparr>reads = [], sent = [], thrown = None\<rparr>"
  using favicon_noop [of "\<lparr>method = ''GET'', url = ''/favicon.ico''\<rparr>"
      "serveFile_table [(''/srv/static//favicon.ico'', ''icon'')]" "''/srv''"]
  by simp

subsection \<open>Existing files\<close>

text \<open>
  With files \<open>ws\<close> and \<open>favicon.ico\<close> in the static directory, a \<open>GET\<close> for \<open>/ws\<close> and a
  \<open>GET\<close> for \<open>/favicon.ico\<close> are still given nothing.
\<close>

theorem ws_file_not_served:
  "map_of [(''/srv/static//ws'', ''ws file''), (''/srv/static//favicon.ico'', ''icon'')]
       ''/srv/static//ws'' = Some ''ws file'' \<and>
   handle (serveFile_table [(''/srv/static//ws'', ''ws file''),
                            (''/srv/static//favicon.ico'', ''icon'')]) ''/srv''
       \<lparr>method = ''GET'', url = ''/ws''\<rparr>
     = \<lparr>reads = [], sent = [], thrown = None\<rparr> \<and>
   map_of [(''/srv/static//ws'', ''ws file''), (''/srv/static//favicon.ico'', ''icon'')]
       ''/srv/static//favicon.ico'' = Some ''icon'' \<and>
   handle (serveFile_table [(''/srv/static//ws'', ''ws file''),
                            (''/srv/static//favicon.ico'', ''icon'')]) ''/srv''
       \<lparr>method = ''GET'', url = ''/favicon.ico''\<rparr>
     = \<lparr>reads = [], sent = [], thrown = None\<rparr>"
  by (simp add: handle_def nothing_def)

text \<open>
  C4, as the program has it: for every relative path \<open>p\<close> that is not empty and is neither
  \<open>ws\<close> nor \<open>favicon.ico\<close>, if a file exists at the path the dispatcher builds for it, the
  working directory followed by \<open>/static//\<close> and \<open>p\<close>, then a \<open>GET\<close> for \<open>/p\<close> has that one
  path read and is answered with status 200 and a body that is, byte for byte, the content
  of that file. \<open>serveFile\<close> is taken to answer existing files as \<open>serves_files\<close> says.
\<close>

theorem existing_file_served:
  "serves_files files serveFile \<Longrightarrow> p \<notin> {[], ''ws'', ''favicon.ico''} \<Longrightarrow>
   method req = ''GET'' \<Longrightarrow> url req = ''/'' @ p \<Longrightarrow>
   files (cwd @ ''/static/'' @ ''/'' @ p) = Some bytes \<Longrightarrow>
   handle serveFile cwd req
     = \<lparr>reads = [cwd @ ''/static/'' @ ''/'' @ p],
        sent = [\<lparr>status = 200, body = bytes\<rparr>], thrown = None\<rparr>"
proof -
  assume sf: "serves_files files serveFile" and p: "p \<notin> {[], ''ws'', ''favicon.ico''}"
    and m: "method req = ''GET''" and u: "url req = ''/'' @ p"
    and f: "files (cwd @ ''/static/'' @ ''/'' @ p) = Some bytes"
  from sf f have "serveFile req (cwd @ ''/static/'' @ ''/'' @ p)
      = Inr \<lparr>status = 200, body = bytes\<rparr>"
    unfolding serves_files_def by blast
  with p m u show ?thesis
    by (simp add: handle_def serve_and_respond_def)
qed

theorem existing_file_served_witness:
  "handle (serveFile_table [(''/srv/static/index.html'', ''<html>hi</html>''),
                            (''/srv/static//main.js'', ''console.log(1)'')]) ''/srv''
       \<lparr>method = ''GET'', url = ''/main.js''\<rparr>
     = \<lparr>reads = [''/srv/static//main.js''],
        sent = [\<lparr>status = 200, body = ''console.log(1)''\<rparr>], thrown = None\<rparr>"
  using existing_file_served [OF serves_files_table, of "''main.js''"
      "\<lparr>method = ''GET'', url = ''/main.js''\<rparr>"
      "[(''/srv/static/index.html'', ''<html>hi</html>''),
        (''/srv/static//main.js'', ''console.log(1)'')]" "''/srv''" "''console.log(1)''"]
  by simp

subsection \<open>First match wins\<close>

text \<open>
  A \<open>GET\<close> for \<open>/ws\<close> produces no response, not one.
\<close>

theorem ws_no_response:
  "length (sent (handle (serveFile_table [(''/srv/static/index.html'', ''<html>hi</html>'')])
       ''/srv'' \<lparr>method = ''GET'', url = ''/ws''\<rparr>)) = 0"
  by (simp add: handle_def nothing_def)

text \<open>
  C5, as the program has it: for every request the loop body does what the first rule of
  the table whose predicate holds prescribes, and only that; such a rule always exists.
  The responses produced are none for a \<open>GET\<close> of \<open>/ws\<close> or \<open>/favicon.ico\<close> and none when
  the call of \<open>serveFile\<close> on the rule's path rejects; otherwise there is exactly one, the
  response that call resolves to. So there is never more than one.
\<close>

theorem first_match_wins:
  "first_match (route_rules serveFile cwd) req = Some (handle serveFile cwd req) \<and>
   sent (handle serveFile cwd req) =
     (if method req = ''GET'' \<and> url req = ''/'' then
        (case serveFile req (cwd @ ''/static/index.html'') of
           Inl e \<Rightarrow> [] | Inr content \<Rightarrow> [content])
      else if method req = ''GET'' \<and> url req \<in> {''/ws'', ''/favicon.ico''} then []
      else (case serveFile req (cwd @ ''/static/'' @ url req) of
              Inl e \<Rightarrow> [] | Inr content \<Rightarrow> [content])) \<and>
   length (sent (handle serveFile cwd req)) \<le> 1"
proof (intro conjI)
  show "first_match (route_rules serveFile cwd) req = Some (handle serveFile cwd req)"
    by (simp add: route_rules_def handle_def serve_and_respond_def nothing_def
        split: sum.splits)
  show s: "sent (handle serveFile cwd req) =
     (if method req = ''GET'' \<and> url req = ''/'' then
        (case serveFile req (cwd @ ''/static/index.html'') of
           Inl e \<Rightarrow> [] | Inr content \<Rightarrow> [content])
      else if method req = ''GET'' \<and> url req \<in> {''/ws'', ''/favicon.ico''} then []
      else (case serveFile req (cwd @ ''/static/'' @ url req) of
              Inl e \<Rightarrow> [] | Inr content \<Rightarrow> [content]))"
    by (simp add: handle_def serve_and_respond_def nothing_def split: sum.splits)
  show "length (sent (handle serveFile cwd req)) \<le> 1"
    unfolding s by (simp split: sum.splits)
qed

theorem first_match_wins_witness:
  "first_match (route_rules (serveFile_table [(''/srv/static/index.html'', ''<html>hi</html>'')])
       ''/srv'') \<lparr>method = ''GET'', url = ''/''\<rparr>
     = Some \<lparr>reads = [''/srv/static/index.html''],
        sent = [\<lparr>status = 200, body = ''<html>hi</html>''\<rparr>], thrown = None\<rparr> \<and>
   sent (handle (serveFile_table [(''/srv/static/index.html'', ''<html>hi</html>'')]) ''/srv''
       \<lparr>method = ''GET'', url = ''/''\<rparr>) = [\<lparr>status = 200, body = ''<html>hi</html>''\<rparr>]"
  using first_match_wins [of "serveFile_table [(''/srv/static/index.html'', ''<html>hi</html>'')]"
      "''/srv''" "\<lparr>method = ''GET'', url = ''/''\<rparr>"]
  by (simp add: serveFile_table_def route_rules_def)

subsection \<open>The root document\<close>




subsection \<open>Other methods\<close>




subsection \<open>Requests in sequence\<close>

text \<open>
  The request for the root document is answered when it comes alone and is never taken
  when it comes behind a request for an absent file.
\<close>

theorem failure_stops_later_requests:
  "server_loop (serveFile_table [(''/srv/static/index.html'', ''<html>hi</html>'')]) ''/srv''
       [\<lparr>method = ''GET'', url = ''/nope.js''\<rparr>, \<lparr>method = ''GET'', url = ''/''\<rparr>]
     = [(\<lparr>method = ''GET'', url = ''/nope.js''\<rparr>,
         \<lparr>reads = [''/srv/static//nope.js''], sent = [], thrown = Some NotFound\<rparr>)] \<and>
   server_loop (serveFile_table [(''/srv/static/index.html'', ''<html>hi</html>'')]) ''/srv''
       [\<lparr>method = ''GET'', url = ''/''\<rparr>]
     = [(\<lparr>method = ''GET'', url = ''/''\<rparr>,
         \<lparr>reads = [''/srv/static/index.html''],
          sent = [\<lparr>status = 200, body = ''<html>hi</html>''\<rparr>], thrown = None\<rparr>)]"
  by (simp add: handle_def serve_and_respond_def serveFile_table_def)

text \<open>
  C8, as the program has it: the loop keeps no state from one request to the next. It
  takes the requests in order up to and including the first whose call of \<open>serveFile\<close>
  rejects, and no request behind that one. What it does for each request it takes is
  fixed by that request and the answer of \<open>serveFile\<close> to it, wherever in the sequence the
  request stands: nothing for a \<open>GET\<close> of \<open>/ws\<close> or \<open>/favicon.ico\<close>; otherwise one call of
  \<open>serveFile\<close> on the request's path, whose response is sent, or whose error is thrown
  with nothing sent.
\<close>

theorem loop_log:
  "server_loop serveFile cwd reqs =
     map (\<lambda>req. (req,
            case target cwd req of
              None \<Rightarrow> \<lparr>reads = [], sent = [], thrown = None\<rparr>
            | Some path \<Rightarrow>
                (case serveFile req path of
                   Inl e \<Rightarrow> \<lparr>reads = [path], sent = [], thrown = Some e\<rparr>
                 | Inr content \<Rightarrow> \<lparr>reads = [path], sent = [content], thrown = None\<rparr>)))
       (take (Suc (length (takeWhile (\<lambda>req. \<not> rejects serveFile cwd req) reqs))) reqs)"
proof (induction reqs)
  case Nil
  show ?case by simp
next
  case (Cons req rest)
  show ?case
  proof (cases "rejects serveFile cwd req")
    case True
    then have "thrown (handle serveFile cwd req) \<noteq> None"
      by (simp add: thrown_rejects)
    then obtain e where "thrown (handle serveFile cwd req) = Some e" by blast
    with True show ?thesis
      by (simp add: Let_def handle_target [symmetric])
  next
    case False
    then have "thrown (handle serveFile cwd req) = None"
      by (simp add: thrown_rejects)
    with False Cons.IH show ?thesis
      by (simp add: Let_def handle_target [symmetric])
  qed
qed

theorem loop_log_witness:
  "server_loop (serveFile_table [(''/srv/static/index.html'', ''<html>hi</html>'')]) ''/srv''
       [\<lparr>method = ''GET'', url = ''/''\<rparr>, \<lparr>method = ''GET'', url = ''/favicon.ico''\<rparr>,
        \<lparr>method = ''GET'', url = ''/a.css''\<rparr>, \<lparr>method = ''GET'', url = ''/''\<rparr>]
     = [(\<lparr>method = ''GET'', url = ''/''\<rparr>,
         \<lparr>reads = [''/srv/static/index.html''],
          sent = [\<lparr>status = 200, body = ''<html>hi</html>''\<rparr>], thrown = None\<rparr>),
        (\<lparr>method = ''GET'', url = ''/favicon.ico''\<rparr>,
         \<lparr>reads = [], sent = [], thrown = None\<rparr>),
        (\<lparr>method = ''GET'', url = ''/a.css''\<rparr>,
         \<lparr>reads = [''/srv/static//a.css''], sent = [], thrown = Some NotFound\<rparr>)]"
  using loop_log [of "serveFile_table [(''/srv/static/index.html'', ''<html>hi</html>'')]"
      "''/srv''"
      "[\<lparr>method = ''GET'', url = ''/''\<rparr>, \<lparr>method = ''GET'', url = ''/favicon.ico''\<rparr>,
        \<lparr>method = ''GET'', url = ''/a.css''\<rparr>, \<lparr>method = ''GET'', url = ''/''\<rparr>]"]
  by (simp add: target_def rejects_def serveFile_table_def)

subsection \<open>The \<open>/ws\<close> request\<close>

text \<open>
  A file \<open>ws\<close> in the static directory is served to a \<open>POST\<close> for \<open>/ws\<close>, which the
  second branch does not take.
\<close>

theorem post_ws_served:
  "handle (serveFile_table [(''/srv/static//ws'', ''ws file'')]) ''/srv''
       \<lparr>method = ''POST'', url = ''/ws''\<rparr>
     = \<lparr>reads = [''/srv/static//ws''],
        sent = [\<lparr>status = 200, body = ''ws file''\<rparr>], thrown = None\<rparr>"
  by (simp add: handle_def serve_and_respond_def serveFile_table_def)

text \<open>
  C9, as the program has it: for a request with URL \<open>/ws\<close> and method \<open>GET\<close> the loop body
  does nothing: no path is given to \<open>serveFile\<close>, no response is sent, no error is raised,
  so this request is never answered with the file \<open>ws\<close>. With any other method the same
  URL reaches the last branch and is answered from the path ending in \<open>/static//ws\<close>.
\<close>

theorem ws_noop_for_get:
  "url req = ''/ws'' \<Longrightarrow>
   handle serveFile cwd req =
     (if method req = ''GET'' then \<lparr>reads = [], sent = [], thrown = None\<rparr>
      else serve_and_respond serveFile req (cwd @ ''/static//ws''))"
  by (simp add: handle_def nothing_def)

theorem ws_noop_for_get_witness:
  "handle (serveFile_table [(''/srv/static//ws'', ''ws file'')]) ''/srv''
       \<lparr>method = ''GET'', url = ''/ws''\<rparr>
     = \<lparr>reads = [], sent = [], thrown = None\<rparr>"
  using ws_noop_for_get [of "\<lparr>method = ''GET'', url = ''/ws''\<rparr>"
      "serveFile_table [(''/srv/static//ws'', ''ws file'')]" "''/srv''"]
  by simp

subsection \<open>The path of the last branch\<close>

text \<open>
  C10: for every request that reaches the last branch, \<open>serveFile\<close> is called once, on
  the working directory, then \<open>/static/\<close>, then the URL of the request as it was received,
  leading slash included; nothing is normalised, decoded or removed before the call, and
  what the request gets is the outcome of that call.
\<close>

theorem fallback_path:
  "\<not> special req \<Longrightarrow>
   handle serveFile cwd req =
     (case serveFile req (cwd @ ''/static/'' @ url req) of
        Inl e \<Rightarrow> \<lparr>reads = [cwd @ ''/static/'' @ url req], sent = [], thrown = Some e\<rparr>
      | Inr content \<Rightarrow>
          \<lparr>reads = [cwd @ ''/static/'' @ url req], sent = [content], thrown = None\<rparr>)"
  by (auto simp: special_def handle_def serve_and_respond_def split: sum.splits)

theorem fallback_path_witness:
  "\<not> special \<lparr>method = ''GET'', url = ''/%2e%2e/a b/../x''\<rparr> \<and>
   handle serveFile_echo ''/srv'' \<lparr>method = ''GET'', url = ''/%2e%2e/a b/../x''\<rparr>
     = \<lparr>reads = [''/srv/static//%2e%2e/a b/../x''],
        sent = [\<lparr>status = 200, body = ''/srv/static//%2e%2e/a b/../x''\<rparr>], thrown = None\<rparr>"
  using fallback_path [of "\<lparr>method = ''GET'', url = ''/%2e%2e/a b/../x''\<rparr>" serveFile_echo
      "''/srv''"]
  by (simp add: special_def serveFile_echo_def)

end
